theory Spec2Isabelle
  imports Main "HOL-Library.Word" "HOL-Library.Sublist"
begin

section \<open>Container lifecycle hooks (pkg/katautils/hook.go)\<close>

text \<open>
  The file runs the OCI hooks of a container: \<open>runHook\<close> launches one hook as a
  child process, hands it the container state as JSON on standard input and waits for
  it, with an optional timeout after which the child is killed; \<open>runHooks\<close> runs a
  list of hooks in order and stops at the first failure; \<open>PreStartHooks\<close>,
  \<open>PostStartHooks\<close> and \<open>PostStopHooks\<close> pick the list of one lifecycle phase.

  Everything the Go code does to the outside (tracing spans, the logger, system calls,
  child processes) is recorded, in order, in a history of events. What the outside
  answers (the thread id, the JSON encoder, whether a process starts and how it behaves,
  whether a kill succeeds) is a parameter of type \<open>sys\<close>; the theorems hold for every
  such environment.
\<close>

subsection \<open>Data\<close>

text \<open>
  A Go \<open>error\<close>. \<open>Errorf\<close> is an error built by \<open>fmt.Errorf\<close> in this file;
  \<open>LibError\<close> is an error value handed over by a library or the kernel
  (\<open>encoding/json\<close>, \<open>os/exec\<close>, \<open>syscall\<close>). Both carry their message.
\<close>

datatype error = LibError string | Errorf string

text \<open>The method \<open>Error()\<close>, which the verb \<open>%s\<close> of \<open>fmt\<close> prints.\<close>

fun Error :: "error \<Rightarrow> string" where
  "Error (LibError m) = m"
| "Error (Errorf m) = m"

text \<open>
  \<open>specs.Hook\<close>: the fields the file reads. \<open>Timeout\<close> is a \<open>*int\<close> (seconds); the
  Go \<open>int\<close> of the 64-bit platforms is a 64-bit word, \<open>nil\<close> is \<open>None\<close>.
\<close>

record Hook =
  Path :: string
  Args :: "string list"
  Env :: "string list"
  Timeout :: "64 word option"

text \<open>\<open>specs.State\<close>, as the composite literal of \<open>runHook\<close> fills it.\<close>

record State =
  Pid :: int
  Bundle :: string
  ID :: string

text \<open>A JSON document, as a value: numbers, strings and objects (members in order).\<close>

datatype json = JNumber int | JString string | JObject "(string \<times> json) list"

text \<open>
  \<open>exec.Cmd\<close>: what \<open>runHook\<close> sets. \<open>Stdout\<close> and \<open>Stderr\<close> are two fresh
  buffers; their contents after the wait are part of the child's behaviour below.
\<close>

record Cmd =
  cmd_Path :: string
  cmd_Args :: "string list"
  cmd_Env :: "string list"
  cmd_Stdin :: json

text \<open>
  A started child process, as the parent observes it. Times are in nanoseconds from the
  moment the parent begins to wait.
  \<^item> \<open>ProcessPid\<close>: its process id.
  \<^item> \<open>exits_after\<close>: when the child exits (\<open>None\<close>: it never exits by itself).
  \<^item> \<open>pipes_closed_after\<close>: \<open>Stdout\<close> and \<open>Stderr\<close> are buffers, not files, so
    \<open>os/exec\<close> hands the child two pipes and copies from them. This is when every
    other holder of their write ends (a process the child left behind) has closed them:
    \<open>Some 0\<close> when there is none, \<open>None\<close> when one never does.
  \<^item> \<open>wait_err\<close>: what \<open>cmd.Wait()\<close> returns once it returns (\<open>None\<close> is
    \<open>nil\<close>, exit status 0).
  \<^item> \<open>stdout\<close>, \<open>stderr\<close>: what the two buffers hold then.
\<close>

record Process =
  ProcessPid :: int
  exits_after :: "nat option"
  pipes_closed_after :: "nat option"
  wait_err :: "error option"
  stdout :: string
  stderr :: string

datatype signal = SIGKILL | SIGTERM

text \<open>The effects of the file, in the order in which they happen.\<close>

datatype event =
    Trace string                            \<comment> \<open>\<open>Trace(ctx, name)\<close>: a span begins\<close>
  | SetTag string string                    \<comment> \<open>\<open>span.SetTag(key, value)\<close>\<close>
  | LogFields "(string \<times> string) list"      \<comment> \<open>\<open>span.LogFields(...)\<close>\<close>
  | Finish string                           \<comment> \<open>the deferred \<open>span.Finish()\<close> of the named span\<close>
  | Started Cmd                             \<comment> \<open>\<open>cmd.Start()\<close> is called\<close>
  | Wait int                                \<comment> \<open>\<open>cmd.Wait()\<close> is called by the caller itself\<close>
  | GoWait int                              \<comment> \<open>a goroutine is spawned that calls \<open>cmd.Wait()\<close>\<close>
  | Killed int signal                       \<comment> \<open>\<open>syscall.Kill(pid, sig)\<close> is called\<close>
  | LogError string error                   \<comment> \<open>the \<open>hook error\<close> entry of \<open>hookLogger()\<close>\<close>

text \<open>
  The environment. Each answer may depend on everything that has happened so far.
  \<open>syscall_Getpid\<close> is never called by the file; it is here so that the process id of
  the caller can be told apart from its thread id. \<open>select_random\<close> is the choice of
  Go's \<open>select\<close> when both of its cases are ready at the same instant (Go picks one
  of them at random): True when it picks the first case.
\<close>

record sys =
  syscall_Gettid :: "event list \<Rightarrow> int"
  syscall_Getpid :: "event list \<Rightarrow> int"
  json_Marshal :: "State \<Rightarrow> error + json"
  cmd_Start :: "event list \<Rightarrow> Cmd \<Rightarrow> error + Process"
  syscall_Kill :: "event list \<Rightarrow> int \<Rightarrow> signal \<Rightarrow> error option"
  select_random :: "event list \<Rightarrow> bool"

text \<open>
  How a call ends: it returns \<open>nil\<close> (\<open>Return None\<close>) or an error, or it never
  returns, because it waits for a child on which \<open>cmd.Wait()\<close> never returns.
\<close>

datatype outcome = Return "error option" | Blocked

subsection \<open>Library functions the file calls\<close>

fun strings_Join :: "string list \<Rightarrow> string \<Rightarrow> string" where
  "strings_Join [] sep = []"
| "strings_Join [a] sep = a"
| "strings_Join (a # b # bs) sep = a @ sep @ strings_Join (b # bs) sep"

text \<open>\<open>time.Second\<close>, in nanoseconds, as a \<open>time.Duration\<close> (an \<open>int64\<close>).\<close>

definition time_Second :: "64 word" where
  "time_Second = 1000000000"

text \<open>
  \<open>time.After(d)\<close>: the number of nanoseconds after which the channel is ready. A
  duration that is zero or negative fires at once.
\<close>

definition time_After :: "64 word \<Rightarrow> nat" where
  "time_After d = (if sint d \<le> 0 then 0 else nat (sint d))"

text \<open>
  \<open>cmd.Wait()\<close>: when it returns. It waits for the child to exit and then for the
  copying from the two pipes to reach end of file, so it returns at the later of the two
  instants, and never when either never comes.
\<close>

definition wait_returns :: "Process \<Rightarrow> nat option" where
  "wait_returns p =
     (case exits_after p of
        None \<Rightarrow> None
      | Some t \<Rightarrow>
          (case pipes_closed_after p of
             None \<Rightarrow> None
           | Some c \<Rightarrow> Some (max t c)))"

text \<open>
  The \<open>select\<close> of \<open>runHook\<close>, between the channel \<open>done\<close> (ready once the wait of
  the goroutine has returned) and the timer (ready after \<open>deadline\<close> nanoseconds): True
  when the case \<open>err := <-done\<close> runs, False when the timer's case runs. When both
  are ready at the same instant, \<open>pick_first\<close> decides.
\<close>

definition select_done :: "nat \<Rightarrow> bool \<Rightarrow> Process \<Rightarrow> bool" where
  "select_done deadline pick_first p =
     (case wait_returns p of
        None \<Rightarrow> False
      | Some t \<Rightarrow> t < deadline \<or> (t = deadline \<and> pick_first))"

subsection \<open>runHook\<close>

text \<open>
  The error of lines 67 and 79:
  \<^verbatim>\<open>fmt.Errorf("%s: stdout: %s, stderr: %s", err, stdout.String(), stderr.String())\<close>
\<close>

definition wait_failure :: "error \<Rightarrow> Process \<Rightarrow> error" where
  "wait_failure err p =
     Errorf (Error err @ '': stdout: '' @ stdout p @ '', stderr: '' @ stderr p)"

text \<open>
  \<open>runHook\<close> takes the history \<open>h\<close> so far and returns how it ends and the history
  then. The deferred \<open>span.Finish()\<close> runs on every return.
\<close>

definition runHook :: "sys \<Rightarrow> Hook \<Rightarrow> string \<Rightarrow> string \<Rightarrow> event list \<Rightarrow> outcome \<times> event list" where
  "runHook os hook cid bundlePath h =
     (let h1 = h @ [Trace ''hook'', SetTag ''subsystem'' ''runHook'',
                    LogFields [(''hook-name'', Path hook),
                               (''hook-args'', strings_Join (Args hook) '' '')]];
          state = \<lparr>Pid = syscall_Gettid os h1, Bundle = bundlePath, ID = cid\<rparr>
      in case json_Marshal os state of
           Inl err \<Rightarrow> (Return (Some err), h1 @ [Finish ''hook''])
         | Inr stateJSON \<Rightarrow>
             let cmd = \<lparr>cmd_Path = Path hook, cmd_Args = Args hook, cmd_Env = Env hook,
                        cmd_Stdin = stateJSON\<rparr>;
                 h2 = h1 @ [Started cmd]
             in case cmd_Start os h1 cmd of
                  Inl err \<Rightarrow> (Return (Some err), h2 @ [Finish ''hook''])
                | Inr p \<Rightarrow>
                    (case Timeout hook of
                       None \<Rightarrow>
                         let h3 = h2 @ [Wait (ProcessPid p)]
                         in (case wait_returns p of
                               None \<Rightarrow> (Blocked, h3)
                             | Some t \<Rightarrow>
                                 (case wait_err p of
                                    Some err \<Rightarrow>
                                      (Return (Some (wait_failure err p)), h3 @ [Finish ''hook''])
                                  | None \<Rightarrow> (Return None, h3 @ [Finish ''hook''])))
                     | Some timeout \<Rightarrow>
                         let h3 = h2 @ [GoWait (ProcessPid p)]
                         in if select_done (time_After (timeout * time_Second)) (select_random os h3) p
                            then (case wait_err p of
                                    Some err \<Rightarrow>
                                      (Return (Some (wait_failure err p)), h3 @ [Finish ''hook''])
                                  | None \<Rightarrow> (Return None, h3 @ [Finish ''hook'']))
                            else
                              let h4 = h3 @ [Killed (ProcessPid p) SIGKILL]
                              in (case syscall_Kill os h3 (ProcessPid p) SIGKILL of
                                    Some err \<Rightarrow> (Return (Some err), h4 @ [Finish ''hook''])
                                  | None \<Rightarrow>
                                      (Return (Some (Errorf ''Hook timeout'')),
                                       h4 @ [Finish ''hook'']))))"

subsection \<open>runHooks\<close>

text \<open>
  The \<open>for\<close> loop of \<open>runHooks\<close>: each hook starts from the history the one before
  left; the first error is logged and returned; a hook that never returns stops the
  loop for good.
\<close>

fun hooks_loop :: "sys \<Rightarrow> Hook list \<Rightarrow> string \<Rightarrow> string \<Rightarrow> string \<Rightarrow> event list \<Rightarrow> outcome \<times> event list" where
  "hooks_loop os [] cid bundlePath hookType h = (Return None, h)"
| "hooks_loop os (hook # hooks) cid bundlePath hookType h =
     (case runHook os hook cid bundlePath h of
        (Return None, h') \<Rightarrow> hooks_loop os hooks cid bundlePath hookType h'
      | (Return (Some err), h') \<Rightarrow> (Return (Some err), h' @ [LogError hookType err])
      | (Blocked, h') \<Rightarrow> (Blocked, h'))"

definition runHooks :: "sys \<Rightarrow> Hook list \<Rightarrow> string \<Rightarrow> string \<Rightarrow> string \<Rightarrow> event list \<Rightarrow> outcome \<times> event list" where
  "runHooks os hooks cid bundlePath hookType h =
     (case hooks_loop os hooks cid bundlePath hookType
             (h @ [Trace ''hooks'', SetTag ''subsystem'' hookType]) of
        (Return r, h') \<Rightarrow> (Return r, h' @ [Finish ''hooks''])
      | (Blocked, h') \<Rightarrow> (Blocked, h'))"

subsection \<open>The three entry points\<close>

text \<open>
  \<open>oci.CompatOCISpec\<close>, as far as the file reads it: the pointer \<open>Hooks\<close>
  (\<open>nil\<close> is \<open>None\<close>) to the three lists of \<open>specs.Hooks\<close>.
\<close>

record Hooks =
  Prestart :: "Hook list"
  Poststart :: "Hook list"
  Poststop :: "Hook list"

record CompatOCISpec =
  spec_Hooks :: "Hooks option"

definition PreStartHooks :: "sys \<Rightarrow> CompatOCISpec \<Rightarrow> string \<Rightarrow> string \<Rightarrow> event list \<Rightarrow> outcome \<times> event list" where
  "PreStartHooks os spec cid bundlePath h =
     (case spec_Hooks spec of
        None \<Rightarrow> (Return None, h)
      | Some hs \<Rightarrow> runHooks os (Prestart hs) cid bundlePath ''pre-start'' h)"

definition PostStartHooks :: "sys \<Rightarrow> CompatOCISpec \<Rightarrow> string \<Rightarrow> string \<Rightarrow> event list \<Rightarrow> outcome \<times> event list" where
  "PostStartHooks os spec cid bundlePath h =
     (case spec_Hooks spec of
        None \<Rightarrow> (Return None, h)
      | Some hs \<Rightarrow> runHooks os (Poststart hs) cid bundlePath ''post-start'' h)"

definition PostStopHooks :: "sys \<Rightarrow> CompatOCISpec \<Rightarrow> string \<Rightarrow> string \<Rightarrow> event list \<Rightarrow> outcome \<times> event list" where
  "PostStopHooks os spec cid bundlePath h =
     (case spec_Hooks spec of
        None \<Rightarrow> (Return None, h)
      | Some hs \<Rightarrow> runHooks os (Poststop hs) cid bundlePath ''post-stop'' h)"

subsection \<open>Reading a history\<close>

text \<open>The commands for which \<open>cmd.Start()\<close> was called, in order.\<close>

fun launches :: "event list \<Rightarrow> Cmd list" where
  "launches [] = []"
| "launches (Started c # es) = c # launches es"
| "launches (e # es) = launches es"

text \<open>
  The parts of one invocation of \<open>runHook\<close>, named so that the theorems can speak
  of them: the history once the span is open and tagged; the \<open>specs.State\<close> that
  is serialised; the command that is started; the deadline of a timeout, in nanoseconds.
\<close>

definition hook_entry :: "Hook \<Rightarrow> event list \<Rightarrow> event list" where
  "hook_entry hook h =
     h @ [Trace ''hook'', SetTag ''subsystem'' ''runHook'',
          LogFields [(''hook-name'', Path hook),
                     (''hook-args'', strings_Join (Args hook) '' '')]]"

definition hook_state :: "sys \<Rightarrow> Hook \<Rightarrow> string \<Rightarrow> string \<Rightarrow> event list \<Rightarrow> State" where
  "hook_state os hook cid bundlePath h =
     \<lparr>Pid = syscall_Gettid os (hook_entry hook h), Bundle = bundlePath, ID = cid\<rparr>"

definition hook_cmd :: "Hook \<Rightarrow> json \<Rightarrow> Cmd" where
  "hook_cmd hook stateJSON =
     \<lparr>cmd_Path = Path hook, cmd_Args = Args hook, cmd_Env = Env hook, cmd_Stdin = stateJSON\<rparr>"

definition hook_deadline :: "64 word \<Rightarrow> nat" where
  "hook_deadline timeout = time_After (timeout * time_Second)"

text \<open>
  The deadline against the child: it elapses before the child exits (or the child never
  exits); it elapses before \<open>cmd.Wait()\<close> returns (or that never returns);
  \<open>cmd.Wait()\<close> returns before it elapses; the child exits before it elapses. When
  the wait returns at the very instant of the deadline, \<open>select\<close> may run either
  case.
\<close>

definition deadline_before_exit :: "nat \<Rightarrow> Process \<Rightarrow> bool" where
  "deadline_before_exit deadline p =
     (case exits_after p of None \<Rightarrow> True | Some t \<Rightarrow> deadline < t)"

definition deadline_before_wait :: "nat \<Rightarrow> Process \<Rightarrow> bool" where
  "deadline_before_wait deadline p =
     (case wait_returns p of None \<Rightarrow> True | Some t \<Rightarrow> deadline < t)"

definition wait_before_deadline :: "nat \<Rightarrow> Process \<Rightarrow> bool" where
  "wait_before_deadline deadline p =
     (case wait_returns p of None \<Rightarrow> False | Some t \<Rightarrow> t < deadline)"

definition exit_before_deadline :: "nat \<Rightarrow> Process \<Rightarrow> bool" where
  "exit_before_deadline deadline p =
     (case exits_after p of None \<Rightarrow> False | Some t \<Rightarrow> t < deadline)"

text \<open>
  The environment \<open>os\<close>, except that every child it starts has written \<open>out\<close> to
  its standard output and \<open>err\<close> to its standard error.
\<close>

definition with_streams :: "sys \<Rightarrow> string \<Rightarrow> string \<Rightarrow> sys" where
  "with_streams os out err =
     os\<lparr>cmd_Start :=
          (\<lambda>h c. case cmd_Start os h c of
                    Inl e \<Rightarrow> Inl e
                  | Inr p \<Rightarrow> Inr (p\<lparr>stdout := out, stderr := err\<rparr>))\<rparr>"

subsection \<open>The JSON shape of the state\<close>

text \<open>
  Modelled from the spec: \<open>json.Marshal\<close> on a \<open>specs.State\<close>. Neither the
  encoder nor the declaration of \<open>specs.State\<close> with its field tags is part of the
  file, so \<open>runHook\<close> above takes the encoder from the environment. The spec gives
  the document as
  \<^verbatim>\<open>{"pid": <integer>, "bundlePath": "<string>", "id": "<string>"}\<close>.
\<close>

definition marshal_State :: "State \<Rightarrow> error + json" where
  "marshal_State s =
     Inr (JObject [(''pid'', JNumber (Pid s)),
                   (''bundlePath'', JString (Bundle s)),
                   (''id'', JString (ID s))])"

text \<open>The member of a JSON object with a given name, and the names of all members.\<close>

fun json_member :: "json \<Rightarrow> string \<Rightarrow> json option" where
  "json_member (JObject ms) k = map_of ms k"
| "json_member (JNumber n) k = None"
| "json_member (JString s) k = None"



subsection \<open>Concrete runs\<close>

text \<open>
  An environment in which the caller runs on thread 4243 of process 4242, the state is
  encoded in the shape above, \<open>start\<close> decides what becomes of a command, and every
  kill returns \<open>k\<close>.
\<close>

definition example_sys :: "(Cmd \<Rightarrow> error + Process) \<Rightarrow> error option \<Rightarrow> sys" where
  "example_sys start k =
     \<lparr>syscall_Gettid = (\<lambda>h. 4243), syscall_Getpid = (\<lambda>h. 4242),
      json_Marshal = marshal_State,
      cmd_Start = (\<lambda>h. start),
      syscall_Kill = (\<lambda>h pid s. k),
      select_random = (\<lambda>h. False)\<rparr>"

text \<open>A hook without timeout, and the same hook with a timeout of one second.\<close>

definition example_hook :: Hook where
  "example_hook =
     \<lparr>Path = ''/usr/bin/net-hook'', Args = [''net-hook'', ''up''], Env = [''A=1''],
      Timeout = None\<rparr>"

definition example_timed_hook :: Hook where
  "example_timed_hook = example_hook\<lparr>Timeout := Some 1\<rparr>"

text \<open>
  A child that writes \<open>Hook\<close> to its standard output and \<open>timeout\<close> to its
  standard error, and exits with status 1 after two seconds.
\<close>

definition example_process :: Process where
  "example_process =
     \<lparr>ProcessPid = 77, exits_after = Some 2000000000, pipes_closed_after = Some 0,
      wait_err = Some (LibError ''exit status 1''),
      stdout = ''Hook'', stderr = ''timeout''\<rparr>"

text \<open>
  A child that exits with status 0 after 3.9 milliseconds and leaves behind a process
  that keeps the pipes open for five seconds.
\<close>

definition example_lingering_process :: Process where
  "example_lingering_process =
     \<lparr>ProcessPid = 79, exits_after = Some 3900000, pipes_closed_after = Some 5000000000,
      wait_err = None, stdout = [], stderr = []\<rparr>"

text \<open>The state document of container \<open>c1\<close> with bundle \<open>/run/c1\<close> in that environment.\<close>

definition example_json :: json where
  "example_json =
     JObject [(''pid'', JNumber 4243), (''bundlePath'', JString ''/run/c1''),
              (''id'', JString ''c1'')]"

text \<open>
  A child that exits with status 0, and an environment's \<open>start\<close> under which the
  hook \<open>/usr/bin/fail-hook\<close> fails and every other hook succeeds; a list of three
  hooks whose second is the failing one.
\<close>

definition example_ok_process :: Process where
  "example_ok_process =
     \<lparr>ProcessPid = 78, exits_after = Some 1000, pipes_closed_after = Some 0, wait_err = None,
      stdout = ''ok'', stderr = []\<rparr>"

definition example_start :: "Cmd \<Rightarrow> error + Process" where
  "example_start c =
     (if cmd_Path c = ''/usr/bin/fail-hook'' then Inr example_process
      else Inr example_ok_process)"

definition example_hooks :: "Hook list" where
  "example_hooks =
     [example_hook,
      \<lparr>Path = ''/usr/bin/fail-hook'', Args = [''fail-hook''], Env = [], Timeout = None\<rparr>,
      \<lparr>Path = ''/usr/bin/last-hook'', Args = [''last-hook''], Env = [], Timeout = None\<rparr>]"

text \<open>A list of two hooks that both succeed under \<open>example_start\<close>.\<close>

definition example_ok_hooks :: "Hook list" where
  "example_ok_hooks =
     [example_hook,
      \<lparr>Path = ''/usr/bin/last-hook'', Args = [''last-hook''], Env = [], Timeout = None\<rparr>]"

section \<open>Properties\<close>

subsection \<open>Histories\<close>

lemma launches_append: "launches (xs @ ys) = launches xs @ launches ys"
  by (induction xs rule: launches.induct) simp_all

subsection \<open>The paths through runHook\<close>

lemma runHook_marshal_Inl:
  assumes "json_Marshal os (hook_state os hook cid bundlePath h) = Inl err"
  shows "runHook os hook cid bundlePath h =
           (Return (Some err), hook_entry hook h @ [Finish ''hook''])"
  using assms by (simp add: Let_def runHook_def hook_state_def hook_entry_def)

lemma runHook_start_Inl:
  assumes "json_Marshal os (hook_state os hook cid bundlePath h) = Inr js"
    and "cmd_Start os (hook_entry hook h) (hook_cmd hook js) = Inl err"
  shows "runHook os hook cid bundlePath h =
           (Return (Some err), hook_entry hook h @ [Started (hook_cmd hook js), Finish ''hook''])"
  using assms by (simp add: Let_def runHook_def hook_state_def hook_entry_def hook_cmd_def)

lemma runHook_untimed:
  assumes "json_Marshal os (hook_state os hook cid bundlePath h) = Inr js"
    and "cmd_Start os (hook_entry hook h) (hook_cmd hook js) = Inr p"
    and "Timeout hook = None"
  shows "runHook os hook cid bundlePath h =
           (case wait_returns p of
              None \<Rightarrow> (Blocked, hook_entry hook h @ [Started (hook_cmd hook js), Wait (ProcessPid p)])
            | Some t \<Rightarrow>
                (Return (map_option (\<lambda>err. wait_failure err p) (wait_err p)),
                 hook_entry hook h @ [Started (hook_cmd hook js), Wait (ProcessPid p), Finish ''hook'']))"
  using assms
  by (simp add: Let_def runHook_def hook_state_def hook_entry_def hook_cmd_def split: option.splits)

lemma runHook_timed_done:
  assumes "json_Marshal os (hook_state os hook cid bundlePath h) = Inr js"
    and "cmd_Start os (hook_entry hook h) (hook_cmd hook js) = Inr p"
    and "Timeout hook = Some timeout"
    and "select_done (hook_deadline timeout)
           (select_random os (hook_entry hook h @ [Started (hook_cmd hook js), GoWait (ProcessPid p)]))
           p"
  shows "runHook os hook cid bundlePath h =
           (Return (map_option (\<lambda>err. wait_failure err p) (wait_err p)),
            hook_entry hook h @ [Started (hook_cmd hook js), GoWait (ProcessPid p), Finish ''hook''])"
  using assms
  by (simp add: Let_def runHook_def hook_state_def hook_entry_def hook_cmd_def hook_deadline_def
      split: option.splits)

lemma runHook_timed_after:
  assumes "json_Marshal os (hook_state os hook cid bundlePath h) = Inr js"
    and "cmd_Start os (hook_entry hook h) (hook_cmd hook js) = Inr p"
    and "Timeout hook = Some timeout"
    and "\<not> select_done (hook_deadline timeout)
           (select_random os (hook_entry hook h @ [Started (hook_cmd hook js), GoWait (ProcessPid p)]))
           p"
  shows "runHook os hook cid bundlePath h =
           (Return (Some (case syscall_Kill os
                                 (hook_entry hook h @ [Started (hook_cmd hook js), GoWait (ProcessPid p)])
                                 (ProcessPid p) SIGKILL of
                            Some err \<Rightarrow> err
                          | None \<Rightarrow> Errorf ''Hook timeout'')),
            hook_entry hook h @ [Started (hook_cmd hook js), GoWait (ProcessPid p),
                                 Killed (ProcessPid p) SIGKILL, Finish ''hook''])"
  using assms
  by (simp add: Let_def runHook_def hook_state_def hook_entry_def hook_cmd_def hook_deadline_def
      split: option.splits)

lemma runHook_launches:
  assumes "json_Marshal os (hook_state os hook cid bundlePath h) = Inr js"
  shows "launches (drop (length h) (snd (runHook os hook cid bundlePath h))) = [hook_cmd hook js]"
  using assms
  by (simp add: Let_def runHook_def hook_state_def hook_entry_def hook_cmd_def
      split: sum.splits option.splits)

lemma runHook_grows:
  assumes "runHook os hook cid bundlePath h = (r, h')"
  shows "\<exists>es. h' = h @ es \<and> es \<noteq> [] \<and> length (launches es) \<le> 1"
  using assms
  by (auto simp add: runHook_def Let_def launches_append split: sum.splits option.splits if_splits)

lemma deadline_before_wait_select: "deadline_before_wait d p \<Longrightarrow> \<not> select_done d b p"
  by (simp add: deadline_before_wait_def select_done_def split: option.splits)

lemma deadline_before_exit_wait: "deadline_before_exit d p \<Longrightarrow> deadline_before_wait d p"
  by (auto simp add: deadline_before_exit_def deadline_before_wait_def wait_returns_def
      split: option.splits)

lemma wait_before_deadline_select: "wait_before_deadline d p \<Longrightarrow> select_done d b p"
  by (simp add: wait_before_deadline_def select_done_def split: option.splits)

lemma wait_before_deadline_returns: "wait_before_deadline d p \<Longrightarrow> \<exists>t. wait_returns p = Some t"
  by (simp add: wait_before_deadline_def split: option.splits)

lemma wait_returns_streams [simp]:
  "wait_returns (p\<lparr>stdout := out, stderr := err\<rparr>) = wait_returns p"
  by (cases "exits_after p") (simp_all add: wait_returns_def)

lemma with_streams_sys [simp]:
  "syscall_Gettid (with_streams os out err) = syscall_Gettid os"
  "json_Marshal (with_streams os out err) = json_Marshal os"
  "syscall_Kill (with_streams os out err) = syscall_Kill os"
  "select_random (with_streams os out err) = select_random os"
  by (simp_all add: with_streams_def)

lemma with_streams_Start:
  "cmd_Start os h c = Inr p \<Longrightarrow>
     cmd_Start (with_streams os out err) h c = Inr (p\<lparr>stdout := out, stderr := err\<rparr>)"
  by (simp add: with_streams_def)

lemma hook_state_streams [simp]:
  "hook_state (with_streams os out err) hook cid b h = hook_state os hook cid b h"
  by (simp add: hook_state_def)

lemma hook_entry_untimed [simp]: "hook_entry (hook\<lparr>Timeout := x\<rparr>) h = hook_entry hook h"
  by (simp add: hook_entry_def)

lemma hook_state_untimed [simp]:
  "hook_state os (hook\<lparr>Timeout := x\<rparr>) cid b h = hook_state os hook cid b h"
  by (simp add: hook_state_def)

lemma hook_cmd_untimed [simp]: "hook_cmd (hook\<lparr>Timeout := x\<rparr>) js = hook_cmd hook js"
  by (simp add: hook_cmd_def)

lemma colon_in_wait_failure: "CHR '':'' \<in> set (a @ '': stdout: '' @ b)"
  by simp

lemma colon_not_in_timeout: "CHR '':'' \<notin> set ''Hook timeout''"
  by simp

lemma wait_failure_not_timeout: "wait_failure err q \<noteq> Errorf ''Hook timeout''"
proof
  assume "wait_failure err q = Errorf ''Hook timeout''"
  then have "Error err @ '': stdout: '' @ (stdout q @ '', stderr: '' @ stderr q) = ''Hook timeout''"
    unfolding wait_failure_def by (simp only: error.inject)
  then have "CHR '':'' \<in> set ''Hook timeout''"
    using colon_in_wait_failure [of "Error err" "stdout q @ '', stderr: '' @ stderr q"]
    by (simp only:)
  then show False using colon_not_in_timeout by blast
qed

lemma hook_deadline_1: "hook_deadline 1 = 1000000000"
  by (simp add: hook_deadline_def time_After_def time_Second_def)

lemmas example_defs =
  example_sys_def example_start_def example_hooks_def example_ok_hooks_def example_hook_def
  example_process_def
  example_ok_process_def marshal_State_def wait_failure_def wait_returns_def

lemma example_first_hook:
  "fst (runHook (example_sys example_start None) (example_hooks ! 0) ''c1'' ''/run/c1'' h) =
     Return None"
  by (simp add: runHook_def example_defs)

lemma example_second_hook:
  "fst (runHook (example_sys example_start None) (example_hooks ! Suc 0) ''c1'' ''/run/c1'' h) =
     Return (Some (Errorf ''exit status 1: stdout: Hook, stderr: timeout''))"
  by (simp add: runHook_def example_defs)

lemma example_launches:
  "map cmd_Path (launches (snd (runHook (example_sys example_start None) (example_hooks ! Suc 0)
      ''c1'' ''/run/c1''
      (snd (runHook (example_sys example_start None) (example_hooks ! 0) ''c1'' ''/run/c1''
         [Trace ''hooks'', SetTag ''subsystem'' ''pre-start'']))))) =
   [''/usr/bin/net-hook'', ''/usr/bin/fail-hook'']"
  by (simp add: runHook_def example_defs)

subsection \<open>The loop of runHooks\<close>

lemma hooks_loop_grows:
  "hooks_loop os hooks cid bundlePath hookType h = (r, h') \<Longrightarrow> \<exists>es. h' = h @ es"
proof (induction hooks arbitrary: h)
  case Nil
  then show ?case by simp
next
  case (Cons x xs)
  obtain r1 h1 where x: "runHook os x cid bundlePath h = (r1, h1)"
    by (cases "runHook os x cid bundlePath h")
  obtain es where es: "h1 = h @ es"
    using runHook_grows [OF x] by blast
  show ?case
  proof (cases r1)
    case Blocked
    with Cons.prems x es show ?thesis by auto
  next
    case (Return e)
    show ?thesis
    proof (cases e)
      case None
      with Cons.prems x Return have "hooks_loop os xs cid bundlePath hookType h1 = (r, h')"
        by simp
      from Cons.IH [OF this] es show ?thesis by auto
    next
      case (Some err)
      with Cons.prems x Return es show ?thesis by auto
    qed
  qed
qed

lemma runHooks_leaves_trace: "snd (runHooks os hooks cid bundlePath hookType h) \<noteq> h"
proof -
  let ?h0 = "h @ [Trace ''hooks'', SetTag ''subsystem'' hookType]"
  obtain r h' where l: "hooks_loop os hooks cid bundlePath hookType ?h0 = (r, h')"
    by (cases "hooks_loop os hooks cid bundlePath hookType ?h0")
  obtain es where "h' = ?h0 @ es"
    using hooks_loop_grows [OF l] by blast
  then have "length h < length (snd (runHooks os hooks cid bundlePath hookType h))"
    using l by (cases r) (simp_all add: runHooks_def)
  then show ?thesis by auto
qed

lemma hooks_loop_fail_at:
  assumes "k < length hooks"
    and "hist 0 = h0"
    and "\<forall>i<k. runHook os (hooks ! i) cid bundlePath (hist i) = (Return None, hist (Suc i))"
    and "runHook os (hooks ! k) cid bundlePath (hist k) = (Return (Some err), h')"
  shows "hooks_loop os hooks cid bundlePath hookType h0 =
           (Return (Some err), h' @ [LogError hookType err])"
  using assms
proof (induction k arbitrary: hooks hist h0)
  case 0
  then obtain x xs where "hooks = x # xs"
    by (cases hooks) auto
  with 0 show ?case by simp
next
  case (Suc k)
  then obtain x xs where c: "hooks = x # xs"
    by (cases hooks) auto
  have first: "runHook os x cid bundlePath h0 = (Return None, hist (Suc 0))"
    using Suc.prems(2) Suc.prems(3) c by force
  have "hooks_loop os xs cid bundlePath hookType (hist (Suc 0)) =
          (Return (Some err), h' @ [LogError hookType err])"
  proof (rule Suc.IH [where hist = "\<lambda>i. hist (Suc i)"])
    show "k < length xs" using Suc.prems(1) c by simp
    show "hist (Suc 0) = hist (Suc 0)" by simp
    show "\<forall>i<k. runHook os (xs ! i) cid bundlePath (hist (Suc i)) = (Return None, hist (Suc (Suc i)))"
      using Suc.prems(3) c by force
    show "runHook os (xs ! k) cid bundlePath (hist (Suc k)) = (Return (Some err), h')"
      using Suc.prems(4) c by simp
  qed
  with first c show ?case by simp
qed

lemma chain_grows:
  assumes "\<forall>i<k. runHook os (hooks ! i) cid bundlePath (hist i) = (Return None, hist (Suc i))"
  shows "\<exists>es. hist k = hist 0 @ es \<and> length (launches es) \<le> k"
  using assms
proof (induction k)
  case 0
  then show ?case by simp
next
  case (Suc k)
  then obtain es where es: "hist k = hist 0 @ es" "length (launches es) \<le> k"
    by auto
  have "runHook os (hooks ! k) cid bundlePath (hist k) = (Return None, hist (Suc k))"
    using Suc.prems by simp
  then obtain fs where fs: "hist (Suc k) = hist k @ fs" "length (launches fs) \<le> 1"
    using runHook_grows by blast
  have "hist (Suc k) = hist 0 @ (es @ fs)" "length (launches (es @ fs)) \<le> Suc k"
    using es fs by (simp_all add: launches_append)
  then show ?case by blast
qed

lemma hooks_loop_error_source:
  assumes "hooks_loop os hooks cid bundlePath hookType h0 = (Return (Some e), hf)"
  shows "\<exists>k hist. k < length hooks \<and> hist 0 = h0
           \<and> (\<forall>i<k. runHook os (hooks ! i) cid bundlePath (hist i) = (Return None, hist (Suc i)))
           \<and> fst (runHook os (hooks ! k) cid bundlePath (hist k)) = Return (Some e)"
  using assms
proof (induction hooks arbitrary: h0)
  case Nil
  then show ?case by simp
next
  case (Cons x xs)
  obtain r1 h1 where x: "runHook os x cid bundlePath h0 = (r1, h1)"
    by (cases "runHook os x cid bundlePath h0")
  show ?case
  proof (cases r1)
    case Blocked
    with Cons.prems x show ?thesis by simp
  next
    case (Return r)
    show ?thesis
    proof (cases r)
      case (Some err)
      with Cons.prems x Return have "err = e" by simp
      with x Return Some
      have "fst (runHook os ((x # xs) ! 0) cid bundlePath h0) = Return (Some e)"
        by simp
      then show ?thesis
        by (intro exI [of _ 0] exI [of _ "\<lambda>i. h0"]) simp
    next
      case None
      with Cons.prems x Return
      have "hooks_loop os xs cid bundlePath hookType h1 = (Return (Some e), hf)"
        by simp
      from Cons.IH [OF this] obtain k hist where k: "k < length xs" "hist 0 = h1"
        "\<forall>i<k. runHook os (xs ! i) cid bundlePath (hist i) = (Return None, hist (Suc i))"
        "fst (runHook os (xs ! k) cid bundlePath (hist k)) = Return (Some e)"
        by blast
      let ?hist = "\<lambda>i. case i of 0 \<Rightarrow> h0 | Suc j \<Rightarrow> hist j"
      have "\<forall>i<Suc k. runHook os ((x # xs) ! i) cid bundlePath (?hist i) =
              (Return None, ?hist (Suc i))"
      proof (intro allI impI)
        fix i assume "i < Suc k"
        then show "runHook os ((x # xs) ! i) cid bundlePath (?hist i) =
                     (Return None, ?hist (Suc i))"
          using x Return None k(2) k(3) by (cases i) simp_all
      qed
      moreover have "Suc k < length (x # xs)" "?hist 0 = h0"
        "fst (runHook os ((x # xs) ! Suc k) cid bundlePath (?hist (Suc k))) = Return (Some e)"
        using k by simp_all
      ultimately show ?thesis
        by (intro exI [of _ "Suc k"] exI [of _ ?hist]) (simp only: simp_thms)
    qed
  qed
qed

lemma hooks_loop_in_order:
  "\<exists>k hist. k \<le> length hooks \<and> hist 0 = h0
     \<and> (\<forall>i<k. runHook os (hooks ! i) cid bundlePath (hist i) = (Return None, hist (Suc i)))
     \<and> ((k = length hooks
           \<and> hooks_loop os hooks cid bundlePath hookType h0 = (Return None, hist k))
        \<or> (k < length hooks
           \<and> (\<exists>err h'. runHook os (hooks ! k) cid bundlePath (hist k) = (Return (Some err), h')
                 \<and> hooks_loop os hooks cid bundlePath hookType h0 =
                     (Return (Some err), h' @ [LogError hookType err])))
        \<or> (k < length hooks
           \<and> (\<exists>h'. runHook os (hooks ! k) cid bundlePath (hist k) = (Blocked, h')
                 \<and> hooks_loop os hooks cid bundlePath hookType h0 = (Blocked, h'))))"
proof (induction hooks arbitrary: h0)
  case Nil
  show ?case
    by (intro exI [of _ 0] exI [of _ "\<lambda>i. h0"]) simp
next
  case (Cons x xs)
  obtain r1 h1 where x: "runHook os x cid bundlePath h0 = (r1, h1)"
    by (cases "runHook os x cid bundlePath h0")
  show ?case
  proof (cases r1)
    case Blocked
    with x show ?thesis
      by (intro exI [of _ 0] exI [of _ "\<lambda>i. h0"]) simp
  next
    case (Return r)
    show ?thesis
    proof (cases r)
      case (Some err)
      with x Return show ?thesis
        by (intro exI [of _ 0] exI [of _ "\<lambda>i. h0"]) simp
    next
      case None
      obtain k hist where k: "k \<le> length xs" "hist 0 = h1"
        "\<forall>i<k. runHook os (xs ! i) cid bundlePath (hist i) = (Return None, hist (Suc i))"
        and d: "(k = length xs
                  \<and> hooks_loop os xs cid bundlePath hookType h1 = (Return None, hist k))
              \<or> (k < length xs
                  \<and> (\<exists>err h'. runHook os (xs ! k) cid bundlePath (hist k) = (Return (Some err), h')
                        \<and> hooks_loop os xs cid bundlePath hookType h1 =
                            (Return (Some err), h' @ [LogError hookType err])))
              \<or> (k < length xs
                  \<and> (\<exists>h'. runHook os (xs ! k) cid bundlePath (hist k) = (Blocked, h')
                        \<and> hooks_loop os xs cid bundlePath hookType h1 = (Blocked, h')))"
        using Cons.IH [of h1] by blast
      let ?hist = "\<lambda>i. case i of 0 \<Rightarrow> h0 | Suc j \<Rightarrow> hist j"
      have step: "hooks_loop os (x # xs) cid bundlePath hookType h0 =
                    hooks_loop os xs cid bundlePath hookType h1"
        using x Return None by simp
      have chain: "\<forall>i<Suc k. runHook os ((x # xs) ! i) cid bundlePath (?hist i) =
                     (Return None, ?hist (Suc i))"
      proof (intro allI impI)
        fix i assume "i < Suc k"
        then show "runHook os ((x # xs) ! i) cid bundlePath (?hist i) =
                     (Return None, ?hist (Suc i))"
          using x Return None k(2) k(3) by (cases i) simp_all
      qed
      have ends: "(Suc k = length (x # xs)
                  \<and> hooks_loop os (x # xs) cid bundlePath hookType h0 = (Return None, ?hist (Suc k)))
              \<or> (Suc k < length (x # xs)
                  \<and> (\<exists>err h'. runHook os ((x # xs) ! Suc k) cid bundlePath (?hist (Suc k)) =
                          (Return (Some err), h')
                        \<and> hooks_loop os (x # xs) cid bundlePath hookType h0 =
                            (Return (Some err), h' @ [LogError hookType err])))
              \<or> (Suc k < length (x # xs)
                  \<and> (\<exists>h'. runHook os ((x # xs) ! Suc k) cid bundlePath (?hist (Suc k)) = (Blocked, h')
                        \<and> hooks_loop os (x # xs) cid bundlePath hookType h0 = (Blocked, h')))"
        using d step by simp
      have "Suc k \<le> length (x # xs)" "?hist 0 = h0"
        using k(1) by simp_all
      with chain ends show ?thesis
        by (intro exI [of _ "Suc k"] exI [of _ ?hist]) (simp only: simp_thms)
    qed
  qed
qed

lemma runHooks_stops_at_failure:
  assumes "k < length hooks"
    and "hist 0 = h @ [Trace ''hooks'', SetTag ''subsystem'' hookType]"
    and "\<forall>i<k. runHook os (hooks ! i) cid bundlePath (hist i) = (Return None, hist (Suc i))"
    and "runHook os (hooks ! k) cid bundlePath (hist k) = (Return (Some err), h')"
  shows "runHooks os hooks cid bundlePath hookType h =
           (Return (Some err), h' @ [LogError hookType err, Finish ''hooks''])
       \<and> runHooks os (take (Suc k) hooks) cid bundlePath hookType h =
           runHooks os hooks cid bundlePath hookType h
       \<and> length (launches (drop (length h) (snd (runHooks os hooks cid bundlePath hookType h))))
           \<le> Suc k"
proof -
  have loop: "hooks_loop os hooks cid bundlePath hookType (hist 0) =
                (Return (Some err), h' @ [LogError hookType err])"
    by (rule hooks_loop_fail_at [OF assms(1) refl assms(3) assms(4)])
  have all: "runHooks os hooks cid bundlePath hookType h =
               (Return (Some err), h' @ [LogError hookType err, Finish ''hooks''])"
    using loop assms(2) by (simp add: runHooks_def)
  have "hooks_loop os (take (Suc k) hooks) cid bundlePath hookType (hist 0) =
          (Return (Some err), h' @ [LogError hookType err])"
  proof (rule hooks_loop_fail_at [OF _ refl])
    show "k < length (take (Suc k) hooks)"
      using assms(1) by simp
    show "\<forall>i<k. runHook os (take (Suc k) hooks ! i) cid bundlePath (hist i) =
            (Return None, hist (Suc i))"
      using assms(3) by simp
    show "runHook os (take (Suc k) hooks ! k) cid bundlePath (hist k) = (Return (Some err), h')"
      using assms(4) by simp
  qed
  then have part: "runHooks os (take (Suc k) hooks) cid bundlePath hookType h =
                     runHooks os hooks cid bundlePath hookType h"
    using all assms(2) by (simp add: runHooks_def)
  obtain es where es: "hist k = hist 0 @ es" "length (launches es) \<le> k"
    using chain_grows [OF assms(3)] by blast
  obtain fs where fs: "h' = hist k @ fs" "fs \<noteq> []" "length (launches fs) \<le> 1"
    using runHook_grows [OF assms(4)] by blast
  have "snd (runHooks os hooks cid bundlePath hookType h) =
          h @ ([Trace ''hooks'', SetTag ''subsystem'' hookType] @ es @ fs @
               [LogError hookType err, Finish ''hooks''])"
    using all es(1) fs(1) assms(2) by simp
  then have count: "length (launches (drop (length h)
                      (snd (runHooks os hooks cid bundlePath hookType h)))) \<le> Suc k"
    using es(2) fs(3) by (simp add: launches_append)
  show ?thesis using all part count by blast
qed

lemma runHooks_in_order:
  "\<exists>k hist. k \<le> length hooks
     \<and> hist 0 = h @ [Trace ''hooks'', SetTag ''subsystem'' hookType]
     \<and> (\<forall>i<k. runHook os (hooks ! i) cid bundlePath (hist i) = (Return None, hist (Suc i)))
     \<and> ((k = length hooks
           \<and> runHooks os hooks cid bundlePath hookType h = (Return None, hist k @ [Finish ''hooks'']))
        \<or> (k < length hooks
           \<and> (\<exists>err h'. runHook os (hooks ! k) cid bundlePath (hist k) = (Return (Some err), h')
                 \<and> runHooks os hooks cid bundlePath hookType h =
                     (Return (Some err), h' @ [LogError hookType err, Finish ''hooks''])))
        \<or> (k < length hooks
           \<and> (\<exists>h'. runHook os (hooks ! k) cid bundlePath (hist k) = (Blocked, h')
                 \<and> runHooks os hooks cid bundlePath hookType h = (Blocked, h'))))"
proof -
  let ?h0 = "h @ [Trace ''hooks'', SetTag ''subsystem'' hookType]"
  obtain k hist where k: "k \<le> length hooks" "hist 0 = ?h0"
    "\<forall>i<k. runHook os (hooks ! i) cid bundlePath (hist i) = (Return None, hist (Suc i))"
    and d: "(k = length hooks
              \<and> hooks_loop os hooks cid bundlePath hookType ?h0 = (Return None, hist k))
          \<or> (k < length hooks
              \<and> (\<exists>err h'. runHook os (hooks ! k) cid bundlePath (hist k) = (Return (Some err), h')
                    \<and> hooks_loop os hooks cid bundlePath hookType ?h0 =
                        (Return (Some err), h' @ [LogError hookType err])))
          \<or> (k < length hooks
              \<and> (\<exists>h'. runHook os (hooks ! k) cid bundlePath (hist k) = (Blocked, h')
                    \<and> hooks_loop os hooks cid bundlePath hookType ?h0 = (Blocked, h')))"
    using hooks_loop_in_order [of hooks ?h0 os cid bundlePath hookType] by blast
  have "(k = length hooks
           \<and> runHooks os hooks cid bundlePath hookType h = (Return None, hist k @ [Finish ''hooks'']))
        \<or> (k < length hooks
           \<and> (\<exists>err h'. runHook os (hooks ! k) cid bundlePath (hist k) = (Return (Some err), h')
                 \<and> runHooks os hooks cid bundlePath hookType h =
                     (Return (Some err), h' @ [LogError hookType err, Finish ''hooks''])))
        \<or> (k < length hooks
           \<and> (\<exists>h'. runHook os (hooks ! k) cid bundlePath (hist k) = (Blocked, h')
                 \<and> runHooks os hooks cid bundlePath hookType h = (Blocked, h')))"
    using d by (auto simp add: runHooks_def)
  with k show ?thesis
    by (intro exI [of _ k] exI [of _ hist]) (simp only: simp_thms)
qed

subsection \<open>One hook\<close>

text \<open>
  C9: when the serialisation of the state fails, \<open>runHook\<close> returns the error of
  \<open>json.Marshal\<close> as it is. Its tracing span is opened, tagged and finished, and
  nothing else happens: \<open>cmd.Start()\<close> is not called, so no process is launched.
\<close>

theorem runHook_marshal_error:
  assumes "json_Marshal os (hook_state os hook cid bundlePath h) = Inl err"
  shows "runHook os hook cid bundlePath h =
           (Return (Some err),
            h @ [Trace ''hook'', SetTag ''subsystem'' ''runHook'',
                 LogFields [(''hook-name'', Path hook),
                            (''hook-args'', strings_Join (Args hook) '' '')],
                 Finish ''hook''])
         \<and> launches (drop (length h) (snd (runHook os hook cid bundlePath h))) = []"
  using runHook_marshal_Inl [OF assms] by (simp add: hook_entry_def)

theorem runHook_marshal_error_witness:
  "runHook ((example_sys (\<lambda>c. Inr example_process) None)
              \<lparr>json_Marshal := (\<lambda>s. Inl (LibError ''json: unsupported value''))\<rparr>)
           example_hook ''c1'' ''/run/c1'' [] =
     (Return (Some (LibError ''json: unsupported value'')),
      [Trace ''hook'', SetTag ''subsystem'' ''runHook'',
       LogFields [(''hook-name'', ''/usr/bin/net-hook''), (''hook-args'', ''net-hook up'')],
       Finish ''hook''])
   \<and> launches (drop (length ([] :: event list))
        (snd (runHook ((example_sys (\<lambda>c. Inr example_process) None)
                 \<lparr>json_Marshal := (\<lambda>s. Inl (LibError ''json: unsupported value''))\<rparr>)
              example_hook ''c1'' ''/run/c1'' []))) = []"
proof -
  have m: "json_Marshal ((example_sys (\<lambda>c. Inr example_process) None)
              \<lparr>json_Marshal := (\<lambda>s. Inl (LibError ''json: unsupported value''))\<rparr>)
            (hook_state ((example_sys (\<lambda>c. Inr example_process) None)
              \<lparr>json_Marshal := (\<lambda>s. Inl (LibError ''json: unsupported value''))\<rparr>)
              example_hook ''c1'' ''/run/c1'' []) = Inl (LibError ''json: unsupported value'')"
    by simp
  show ?thesis
    using runHook_marshal_error [OF m] by (simp add: example_hook_def)
qed



text \<open>
  C1, as the code has it: take a hook with a timeout whose state was serialised and
  whose process \<open>p\<close> was started, and let \<open>hk\<close> be the history once the goroutine
  waits for \<open>p\<close>. What races against the deadline is the return of \<open>cmd.Wait()\<close>.
  If the deadline elapses before \<open>cmd.Wait()\<close> returns (as it does whenever it
  elapses before \<open>p\<close> exits), \<open>runHook\<close> sends \<open>SIGKILL\<close> to \<open>p\<close>, and
  returns the error \<open>Hook timeout\<close> when the kill succeeds and the error of the kill
  when it fails. If \<open>cmd.Wait()\<close> returns before the deadline, no signal is sent and
  \<open>runHook\<close> returns what it returns for the same hook without timeout. The error
  \<open>Hook timeout\<close> is distinct from every error made of a failed wait.
\<close>

theorem runHook_timeout:
  assumes "Timeout hook = Some timeout"
    and "json_Marshal os (hook_state os hook cid bundlePath h) = Inr js"
    and "cmd_Start os (hook_entry hook h) (hook_cmd hook js) = Inr p"
    and "hk = hook_entry hook h @ [Started (hook_cmd hook js), GoWait (ProcessPid p)]"
  shows "((deadline_before_exit (hook_deadline timeout) p
             \<or> deadline_before_wait (hook_deadline timeout) p)
           \<and> syscall_Kill os hk (ProcessPid p) SIGKILL = None \<longrightarrow>
            runHook os hook cid bundlePath h =
              (Return (Some (Errorf ''Hook timeout'')),
               hk @ [Killed (ProcessPid p) SIGKILL, Finish ''hook'']))
       \<and> (\<forall>kerr. (deadline_before_exit (hook_deadline timeout) p
                     \<or> deadline_before_wait (hook_deadline timeout) p)
                 \<and> syscall_Kill os hk (ProcessPid p) SIGKILL = Some kerr \<longrightarrow>
            runHook os hook cid bundlePath h =
              (Return (Some kerr), hk @ [Killed (ProcessPid p) SIGKILL, Finish ''hook'']))
       \<and> (wait_before_deadline (hook_deadline timeout) p \<longrightarrow>
            fst (runHook os hook cid bundlePath h) =
              fst (runHook os (hook\<lparr>Timeout := None\<rparr>) cid bundlePath h)
            \<and> snd (runHook os hook cid bundlePath h) = hk @ [Finish ''hook''])
       \<and> (\<forall>err q. wait_failure err q \<noteq> Errorf ''Hook timeout'')"
proof -
  have sel: "\<not> select_done (hook_deadline timeout) b p"
    if "deadline_before_exit (hook_deadline timeout) p
          \<or> deadline_before_wait (hook_deadline timeout) p" for b
    using that deadline_before_exit_wait deadline_before_wait_select by blast
  have a: "runHook os hook cid bundlePath h =
              (Return (Some (Errorf ''Hook timeout'')),
               hk @ [Killed (ProcessPid p) SIGKILL, Finish ''hook''])"
    if "deadline_before_exit (hook_deadline timeout) p
          \<or> deadline_before_wait (hook_deadline timeout) p"
      "syscall_Kill os hk (ProcessPid p) SIGKILL = None"
    using runHook_timed_after [OF assms(2) assms(3) assms(1) sel [OF that(1)]]
      that(2) assms(4) by simp
  have b: "runHook os hook cid bundlePath h =
              (Return (Some kerr), hk @ [Killed (ProcessPid p) SIGKILL, Finish ''hook''])"
    if "deadline_before_exit (hook_deadline timeout) p
          \<or> deadline_before_wait (hook_deadline timeout) p"
      "syscall_Kill os hk (ProcessPid p) SIGKILL = Some kerr" for kerr
    using runHook_timed_after [OF assms(2) assms(3) assms(1) sel [OF that(1)]]
      that(2) assms(4) by simp
  have c: "fst (runHook os hook cid bundlePath h) =
              fst (runHook os (hook\<lparr>Timeout := None\<rparr>) cid bundlePath h)
            \<and> snd (runHook os hook cid bundlePath h) = hk @ [Finish ''hook'']"
    if e: "wait_before_deadline (hook_deadline timeout) p"
  proof -
    obtain t where t: "wait_returns p = Some t"
      using wait_before_deadline_returns [OF e] by blast
    have timed: "runHook os hook cid bundlePath h =
        (Return (map_option (\<lambda>err. wait_failure err p) (wait_err p)), hk @ [Finish ''hook''])"
      using runHook_timed_done [OF assms(2) assms(3) assms(1) wait_before_deadline_select [OF e]]
        assms(4)
      by simp
    have untimed: "fst (runHook os (hook\<lparr>Timeout := None\<rparr>) cid bundlePath h) =
        Return (map_option (\<lambda>err. wait_failure err p) (wait_err p))"
      using runHook_untimed [of os "hook\<lparr>Timeout := None\<rparr>" cid bundlePath h js p]
        assms(2) assms(3) t
      by simp
    show ?thesis using timed untimed by simp
  qed
  show ?thesis using a b c wait_failure_not_timeout by blast
qed

theorem runHook_timeout_witness:
  "runHook (example_sys (\<lambda>c. Inr example_process) None) example_timed_hook ''c1'' ''/run/c1'' [] =
     (Return (Some (Errorf ''Hook timeout'')),
      hook_entry example_timed_hook [] @
        [Started (hook_cmd example_timed_hook example_json),
         GoWait 77, Killed 77 SIGKILL, Finish ''hook''])
   \<and> runHook (example_sys (\<lambda>c. Inr example_process) (Some (LibError ''no such process'')))
             example_timed_hook ''c1'' ''/run/c1'' [] =
     (Return (Some (LibError ''no such process'')),
      hook_entry example_timed_hook [] @
        [Started (hook_cmd example_timed_hook example_json),
         GoWait 77, Killed 77 SIGKILL, Finish ''hook''])
   \<and> fst (runHook (example_sys (\<lambda>c. Inr (example_process\<lparr>exits_after := Some 5\<rparr>)) None)
             example_timed_hook ''c1'' ''/run/c1'' []) =
       fst (runHook (example_sys (\<lambda>c. Inr (example_process\<lparr>exits_after := Some 5\<rparr>)) None)
             (example_timed_hook\<lparr>Timeout := None\<rparr>) ''c1'' ''/run/c1'' [])
   \<and> snd (runHook (example_sys (\<lambda>c. Inr (example_process\<lparr>exits_after := Some 5\<rparr>)) None)
             example_timed_hook ''c1'' ''/run/c1'' []) =
       hook_entry example_timed_hook [] @
         [Started (hook_cmd example_timed_hook example_json), GoWait 77, Finish ''hook'']"
proof -
  have t: "Timeout example_timed_hook = Some 1"
    by (simp add: example_timed_hook_def)
  have m: "json_Marshal (example_sys f k)
             (hook_state (example_sys f k) example_timed_hook ''c1'' ''/run/c1'' []) =
           Inr example_json" for f k
    by (simp add: example_sys_def marshal_State_def hook_state_def example_json_def)
  have s: "cmd_Start (example_sys (\<lambda>c. Inr q) k) (hook_entry example_timed_hook [])
             (hook_cmd example_timed_hook example_json) = Inr q" for q k
    by (simp add: example_sys_def)
  have d1: "deadline_before_exit (hook_deadline 1) example_process"
    by (simp add: hook_deadline_1 deadline_before_exit_def example_process_def)
  have d2: "wait_before_deadline (hook_deadline 1) (example_process\<lparr>exits_after := Some 5\<rparr>)"
    by (simp add: hook_deadline_1 wait_before_deadline_def wait_returns_def example_process_def)
  have k1: "syscall_Kill (example_sys f k) hh pp ss = k" for f k hh pp ss
    by (simp add: example_sys_def)
  have p: "ProcessPid example_process = 77"
    by (simp add: example_process_def)
  show ?thesis
    using runHook_timeout [OF t m s refl, of example_process None]
      runHook_timeout [OF t m s refl, of example_process "Some (LibError ''no such process'')"]
      runHook_timeout [OF t m s refl, of "example_process\<lparr>exits_after := Some 5\<rparr>" None]
      d1 d2
    by (simp add: k1 p)
qed

text \<open>
  As C1 is written (a process that exits before the deadline has its result propagated
  as in the untimed case) it fails: a hook that exits with status 0 after 3.9
  milliseconds, but leaves behind a process that holds its output pipes for five
  seconds, has not let \<open>cmd.Wait()\<close> return when its timeout of one second elapses.
  \<open>runHook\<close> sends \<open>SIGKILL\<close> and returns the error of the kill (the child is
  gone), where the same hook without timeout returns \<open>nil\<close>.
\<close>

theorem runHook_timeout_counterexample:
  "Timeout example_timed_hook = Some 1
   \<and> exit_before_deadline (hook_deadline 1) example_lingering_process
   \<and> runHook (example_sys (\<lambda>c. Inr example_lingering_process) (Some (LibError ''no such process'')))
         example_timed_hook ''c1'' ''/run/c1'' [] =
       (Return (Some (LibError ''no such process'')),
        hook_entry example_timed_hook [] @
          [Started (hook_cmd example_timed_hook example_json),
           GoWait 79, Killed 79 SIGKILL, Finish ''hook''])
   \<and> fst (runHook (example_sys (\<lambda>c. Inr example_lingering_process)
                (Some (LibError ''no such process'')))
             (example_timed_hook\<lparr>Timeout := None\<rparr>) ''c1'' ''/run/c1'' []) = Return None"
  by (simp add: runHook_def example_sys_def example_timed_hook_def example_hook_def
      example_lingering_process_def marshal_State_def select_done_def wait_returns_def
      time_After_def time_Second_def hook_entry_def hook_cmd_def example_json_def
      hook_deadline_def exit_before_deadline_def)

text \<open>
  C10: when the deadline elapses before \<open>cmd.Wait()\<close> returns and the kill succeeds,
  \<open>runHook\<close> returns the error with the fixed message \<open>Hook timeout\<close>. Neither
  captured stream is embedded in it: whatever the child has written to its standard
  output and its standard error, the run and its result are the same. In contrast, on
  the same child a hook without timeout whose wait fails returns a message that embeds
  whatever the child has written to both.
\<close>

theorem runHook_timeout_message:
  assumes "Timeout hook = Some timeout"
    and "json_Marshal os (hook_state os hook cid bundlePath h) = Inr js"
    and "cmd_Start os (hook_entry hook h) (hook_cmd hook js) = Inr p"
    and "deadline_before_wait (hook_deadline timeout) p"
    and "syscall_Kill os (hook_entry hook h @ [Started (hook_cmd hook js), GoWait (ProcessPid p)])
           (ProcessPid p) SIGKILL = None"
  shows "fst (runHook os hook cid bundlePath h) = Return (Some (Errorf ''Hook timeout''))
       \<and> (\<forall>out err. runHook (with_streams os out err) hook cid bundlePath h =
                       runHook os hook cid bundlePath h)
       \<and> (\<forall>out err t e. wait_returns p = Some t \<and> wait_err p = Some e \<longrightarrow>
             fst (runHook (with_streams os out err) (hook\<lparr>Timeout := None\<rparr>) cid bundlePath h) =
               Return (Some (Errorf (Error e @ '': stdout: '' @ out @ '', stderr: '' @ err))))"
proof -
  let ?hk = "hook_entry hook h @ [Started (hook_cmd hook js), GoWait (ProcessPid p)]"
  have run: "runHook os hook cid bundlePath h =
               (Return (Some (Errorf ''Hook timeout'')),
                ?hk @ [Killed (ProcessPid p) SIGKILL, Finish ''hook''])"
    using runHook_timed_after [OF assms(2) assms(3) assms(1)
        deadline_before_wait_select [OF assms(4)]] assms(5)
    by simp
  have same: "runHook (with_streams os out err) hook cid bundlePath h =
                runHook os hook cid bundlePath h" for out err
  proof -
    let ?os = "with_streams os out err"
    let ?q = "p\<lparr>stdout := out, stderr := err\<rparr>"
    have m: "json_Marshal ?os (hook_state ?os hook cid bundlePath h) = Inr js"
      using assms(2) by simp
    have s: "cmd_Start ?os (hook_entry hook h) (hook_cmd hook js) = Inr ?q"
      by (rule with_streams_Start [OF assms(3)])
    have d: "deadline_before_wait (hook_deadline timeout) ?q"
      using assms(4) by (simp add: deadline_before_wait_def)
    have "runHook ?os hook cid bundlePath h =
            (Return (Some (case syscall_Kill ?os
                                  (hook_entry hook h @ [Started (hook_cmd hook js), GoWait (ProcessPid ?q)])
                                  (ProcessPid ?q) SIGKILL of
                             Some err \<Rightarrow> err
                           | None \<Rightarrow> Errorf ''Hook timeout'')),
             hook_entry hook h @ [Started (hook_cmd hook js), GoWait (ProcessPid ?q),
                                  Killed (ProcessPid ?q) SIGKILL, Finish ''hook''])"
      by (rule runHook_timed_after [OF m s assms(1) deadline_before_wait_select [OF d]])
    then show ?thesis
      using run assms(5) by simp
  qed
  have contrast:
    "fst (runHook (with_streams os out err) (hook\<lparr>Timeout := None\<rparr>) cid bundlePath h) =
       Return (Some (Errorf (Error e @ '': stdout: '' @ out @ '', stderr: '' @ err)))"
    if "wait_returns p = Some t" "wait_err p = Some e" for out err t e
  proof -
    let ?os = "with_streams os out err"
    let ?q = "p\<lparr>stdout := out, stderr := err\<rparr>"
    let ?hook = "hook\<lparr>Timeout := None\<rparr>"
    have m: "json_Marshal ?os (hook_state ?os ?hook cid bundlePath h) = Inr js"
      using assms(2) by simp
    have s: "cmd_Start ?os (hook_entry ?hook h) (hook_cmd ?hook js) = Inr ?q"
      using with_streams_Start [OF assms(3)] by simp
    have n: "Timeout ?hook = None"
      by simp
    show ?thesis
      using runHook_untimed [OF m s n] that by (simp add: wait_failure_def)
  qed
  show ?thesis using run same contrast by simp
qed

theorem runHook_timeout_message_witness:
  "fst (runHook (example_sys (\<lambda>c. Inr example_process) None)
          example_timed_hook ''c1'' ''/run/c1'' []) = Return (Some (Errorf ''Hook timeout''))
   \<and> runHook (with_streams (example_sys (\<lambda>c. Inr example_process) None) ''lots of output'' [])
         example_timed_hook ''c1'' ''/run/c1'' [] =
       runHook (example_sys (\<lambda>c. Inr example_process) None)
         example_timed_hook ''c1'' ''/run/c1'' []
   \<and> fst (runHook (with_streams (example_sys (\<lambda>c. Inr example_process) None) ''lots of output'' [])
             (example_timed_hook\<lparr>Timeout := None\<rparr>) ''c1'' ''/run/c1'' []) =
       Return (Some (Errorf ''exit status 1: stdout: lots of output, stderr: ''))"
proof -
  let ?os = "example_sys (\<lambda>c. Inr example_process) None"
  have t: "Timeout example_timed_hook = Some 1"
    by (simp add: example_timed_hook_def)
  have m: "json_Marshal ?os (hook_state ?os example_timed_hook ''c1'' ''/run/c1'' []) =
             Inr example_json"
    by (simp add: example_sys_def marshal_State_def hook_state_def example_json_def)
  have s: "cmd_Start ?os (hook_entry example_timed_hook [])
             (hook_cmd example_timed_hook example_json) = Inr example_process"
    by (simp add: example_sys_def)
  have d: "deadline_before_wait (hook_deadline 1) example_process"
    by (simp add: hook_deadline_1 deadline_before_wait_def wait_returns_def example_process_def)
  have k: "syscall_Kill ?os
             (hook_entry example_timed_hook [] @
                [Started (hook_cmd example_timed_hook example_json),
                 GoWait (ProcessPid example_process)])
             (ProcessPid example_process) SIGKILL = None"
    by (simp add: example_sys_def)
  have w: "wait_returns example_process = Some 2000000000
             \<and> wait_err example_process = Some (LibError ''exit status 1'')"
    by (simp add: example_process_def wait_returns_def)
  note th = runHook_timeout_message [OF t m s d k]
  have a: "fst (runHook ?os example_timed_hook ''c1'' ''/run/c1'' []) =
             Return (Some (Errorf ''Hook timeout''))"
    using th by blast
  have b: "runHook (with_streams ?os ''lots of output'' []) example_timed_hook ''c1'' ''/run/c1'' [] =
             runHook ?os example_timed_hook ''c1'' ''/run/c1'' []"
    using th by blast
  have "fst (runHook (with_streams ?os ''lots of output'' [])
               (example_timed_hook\<lparr>Timeout := None\<rparr>) ''c1'' ''/run/c1'' []) =
          Return (Some (Errorf (Error (LibError ''exit status 1'') @ '': stdout: '' @
                                  ''lots of output'' @ '', stderr: '' @ [])))"
    using th w by blast
  then have c: "fst (runHook (with_streams ?os ''lots of output'' [])
               (example_timed_hook\<lparr>Timeout := None\<rparr>) ''c1'' ''/run/c1'' []) =
          Return (Some (Errorf ''exit status 1: stdout: lots of output, stderr: ''))"
    by simp
  show ?thesis using a b c by blast
qed

subsection \<open>The state document\<close>

text \<open>
  C6, as the code has it: with the state encoded in the JSON shape of the spec, the
  command that \<open>runHook\<close> starts reads a document on standard input whose member
  \<open>pid\<close> is the thread id of the caller, the result of \<open>syscall.Gettid()\<close>.
\<close>

theorem runHook_state_pid:
  assumes "json_Marshal os = marshal_State"
  shows "\<exists>js. launches (drop (length h) (snd (runHook os hook cid bundlePath h))) =
                [hook_cmd hook js]
              \<and> cmd_Stdin (hook_cmd hook js) = js
              \<and> json_member js ''pid'' = Some (JNumber (syscall_Gettid os (hook_entry hook h)))"
proof -
  let ?js = "JObject [(''pid'', JNumber (syscall_Gettid os (hook_entry hook h))),
                      (''bundlePath'', JString bundlePath), (''id'', JString cid)]"
  have m: "json_Marshal os (hook_state os hook cid bundlePath h) = Inr ?js"
    by (simp add: assms marshal_State_def hook_state_def)
  have "launches (drop (length h) (snd (runHook os hook cid bundlePath h))) = [hook_cmd hook ?js]"
    by (rule runHook_launches [OF m])
  moreover have "cmd_Stdin (hook_cmd hook ?js) = ?js"
    by (simp add: hook_cmd_def)
  moreover have "json_member ?js ''pid'' = Some (JNumber (syscall_Gettid os (hook_entry hook h)))"
    by simp
  ultimately show ?thesis by blast
qed

theorem runHook_state_pid_witness:
  "\<exists>js. launches (drop (length ([] :: event list))
            (snd (runHook (example_sys (\<lambda>c. Inr example_process) None)
                    example_hook ''c1'' ''/run/c1'' []))) = [hook_cmd example_hook js]
        \<and> cmd_Stdin (hook_cmd example_hook js) = js
        \<and> json_member js ''pid'' = Some (JNumber 4243)"
proof -
  have m: "json_Marshal (example_sys (\<lambda>c. Inr example_process) None) = marshal_State"
    by (simp add: example_sys_def)
  show ?thesis
    using runHook_state_pid [OF m, of "[]" example_hook "''c1''" "''/run/c1''"]
    by (simp add: example_sys_def)
qed

text \<open>
  As C6 is written (the member \<open>pid\<close> is the process id of the caller) it fails
  whenever the caller is not the main thread of its process: on thread 4243 of process
  4242 the hook reads \<open>pid\<close> 4243.
\<close>

theorem runHook_state_pid_counterexample:
  "launches (snd (runHook (example_sys (\<lambda>c. Inr example_process) None)
                    example_hook ''c1'' ''/run/c1'' [])) = [hook_cmd example_hook example_json]
   \<and> json_member (cmd_Stdin (hook_cmd example_hook example_json)) ''pid'' = Some (JNumber 4243)
   \<and> syscall_Gettid (example_sys (\<lambda>c. Inr example_process) None) (hook_entry example_hook []) = 4243
   \<and> syscall_Getpid (example_sys (\<lambda>c. Inr example_process) None) (hook_entry example_hook []) = 4242
   \<and> json_member (cmd_Stdin (hook_cmd example_hook example_json)) ''pid'' \<noteq>
       Some (JNumber (syscall_Getpid (example_sys (\<lambda>c. Inr example_process) None)
                        (hook_entry example_hook [])))"
proof -
  let ?os = "example_sys (\<lambda>c. Inr example_process) None"
  have m: "json_Marshal ?os (hook_state ?os example_hook ''c1'' ''/run/c1'' []) = Inr example_json"
    by (simp add: example_sys_def marshal_State_def hook_state_def example_json_def)
  have "launches (snd (runHook ?os example_hook ''c1'' ''/run/c1'' [])) =
          [hook_cmd example_hook example_json]"
    using runHook_launches [OF m] by simp
  then show ?thesis
    by (simp add: example_sys_def hook_cmd_def example_json_def)
qed



subsection \<open>A list of hooks\<close>

text \<open>
  C3: for every container id, bundle path and phase label, \<open>runHooks\<close> on the empty
  hook list returns \<open>nil\<close>, and the only things it does are to open, tag and finish
  its tracing span: \<open>cmd.Start()\<close> is never called.
\<close>

theorem runHooks_empty:
  "runHooks os [] cid bundlePath hookType h =
     (Return None, h @ [Trace ''hooks'', SetTag ''subsystem'' hookType, Finish ''hooks''])
   \<and> launches (drop (length h) (snd (runHooks os [] cid bundlePath hookType h))) = []"
  by (simp add: runHooks_def)

text \<open>
  C2: first, let the hooks before index \<open>k\<close> return \<open>nil\<close> one after the other,
  each invoked in the history \<open>hist i\<close> that the one before left, and let hook
  \<open>k\<close> return the error \<open>err\<close> and leave \<open>h'\<close>. Then \<open>runHooks\<close> returns
  \<open>err\<close>; after hook \<open>k\<close> it only logs the error and finishes its span; the hooks
  after index \<open>k\<close> play no part (the run is that of the first \<open>k + 1\<close> hooks), and
  \<open>cmd.Start()\<close> is called at most \<open>k + 1\<close> times.

  Second, every run of \<open>runHooks\<close>, whether it succeeds, fails or never returns, goes
  through the list in order: it invokes the hooks \<open>0, ..., k - 1\<close>, hook \<open>i + 1\<close> in
  precisely the history that the invocation of hook \<open>i\<close> returned, and each of them
  returns \<open>nil\<close>; then either the list is exhausted and \<open>runHooks\<close> returns
  \<open>nil\<close>, or hook \<open>k\<close>, invoked in the history hook \<open>k - 1\<close> returned, fails or
  never returns, and no further hook is invoked.
\<close>

theorem runHooks_fail_fast:
  "(\<forall>k hist err h'.
       k < length hooks
       \<and> hist 0 = h @ [Trace ''hooks'', SetTag ''subsystem'' hookType]
       \<and> (\<forall>i<k. runHook os (hooks ! i) cid bundlePath (hist i) = (Return None, hist (Suc i)))
       \<and> runHook os (hooks ! k) cid bundlePath (hist k) = (Return (Some err), h')
     \<longrightarrow> runHooks os hooks cid bundlePath hookType h =
           (Return (Some err), h' @ [LogError hookType err, Finish ''hooks''])
         \<and> runHooks os (take (Suc k) hooks) cid bundlePath hookType h =
             runHooks os hooks cid bundlePath hookType h
         \<and> length (launches (drop (length h) (snd (runHooks os hooks cid bundlePath hookType h))))
             \<le> Suc k)
   \<and> (\<exists>k hist. k \<le> length hooks
         \<and> hist 0 = h @ [Trace ''hooks'', SetTag ''subsystem'' hookType]
         \<and> (\<forall>i<k. runHook os (hooks ! i) cid bundlePath (hist i) = (Return None, hist (Suc i)))
         \<and> ((k = length hooks
               \<and> runHooks os hooks cid bundlePath hookType h =
                   (Return None, hist k @ [Finish ''hooks'']))
            \<or> (k < length hooks
               \<and> (\<exists>err h'. runHook os (hooks ! k) cid bundlePath (hist k) = (Return (Some err), h')
                     \<and> runHooks os hooks cid bundlePath hookType h =
                         (Return (Some err), h' @ [LogError hookType err, Finish ''hooks''])))
            \<or> (k < length hooks
               \<and> (\<exists>h'. runHook os (hooks ! k) cid bundlePath (hist k) = (Blocked, h')
                     \<and> runHooks os hooks cid bundlePath hookType h = (Blocked, h')))))"
proof (rule conjI)
  show "\<forall>k hist err h'.
       k < length hooks
       \<and> hist 0 = h @ [Trace ''hooks'', SetTag ''subsystem'' hookType]
       \<and> (\<forall>i<k. runHook os (hooks ! i) cid bundlePath (hist i) = (Return None, hist (Suc i)))
       \<and> runHook os (hooks ! k) cid bundlePath (hist k) = (Return (Some err), h')
     \<longrightarrow> runHooks os hooks cid bundlePath hookType h =
           (Return (Some err), h' @ [LogError hookType err, Finish ''hooks''])
         \<and> runHooks os (take (Suc k) hooks) cid bundlePath hookType h =
             runHooks os hooks cid bundlePath hookType h
         \<and> length (launches (drop (length h) (snd (runHooks os hooks cid bundlePath hookType h))))
             \<le> Suc k"
    using runHooks_stops_at_failure by blast
  show "\<exists>k hist. k \<le> length hooks
         \<and> hist 0 = h @ [Trace ''hooks'', SetTag ''subsystem'' hookType]
         \<and> (\<forall>i<k. runHook os (hooks ! i) cid bundlePath (hist i) = (Return None, hist (Suc i)))
         \<and> ((k = length hooks
               \<and> runHooks os hooks cid bundlePath hookType h =
                   (Return None, hist k @ [Finish ''hooks'']))
            \<or> (k < length hooks
               \<and> (\<exists>err h'. runHook os (hooks ! k) cid bundlePath (hist k) = (Return (Some err), h')
                     \<and> runHooks os hooks cid bundlePath hookType h =
                         (Return (Some err), h' @ [LogError hookType err, Finish ''hooks''])))
            \<or> (k < length hooks
               \<and> (\<exists>h'. runHook os (hooks ! k) cid bundlePath (hist k) = (Blocked, h')
                     \<and> runHooks os hooks cid bundlePath hookType h = (Blocked, h'))))"
    by (rule runHooks_in_order)
qed

theorem runHooks_fail_fast_witness:
  "fst (runHooks (example_sys example_start None) example_hooks ''c1'' ''/run/c1'' ''pre-start'' []) =
     Return (Some (Errorf ''exit status 1: stdout: Hook, stderr: timeout''))
   \<and> map cmd_Path (launches (snd (runHooks (example_sys example_start None) example_hooks
         ''c1'' ''/run/c1'' ''pre-start'' []))) = [''/usr/bin/net-hook'', ''/usr/bin/fail-hook'']
   \<and> runHooks (example_sys example_start None) (take (Suc (Suc 0)) example_hooks)
         ''c1'' ''/run/c1'' ''pre-start'' [] =
       runHooks (example_sys example_start None) example_hooks ''c1'' ''/run/c1'' ''pre-start'' []
   \<and> fst (runHooks (example_sys example_start None) example_ok_hooks
            ''c1'' ''/run/c1'' ''pre-start'' []) = Return None
   \<and> map cmd_Path (launches (snd (runHooks (example_sys example_start None) example_ok_hooks
         ''c1'' ''/run/c1'' ''pre-start'' []))) = [''/usr/bin/net-hook'', ''/usr/bin/last-hook'']"
proof -
  let ?os = "example_sys example_start None"
  let ?h0 = "[Trace ''hooks'', SetTag ''subsystem'' ''pre-start'']"
  let ?h1 = "snd (runHook ?os (example_hooks ! 0) ''c1'' ''/run/c1'' ?h0)"
  let ?h2 = "snd (runHook ?os (example_hooks ! Suc 0) ''c1'' ''/run/c1'' ?h1)"
  let ?e = "Errorf ''exit status 1: stdout: Hook, stderr: timeout''"
  define hist where "hist = (\<lambda>i::nat. if i = 0 then ?h0 else ?h1)"
  have a1: "Suc 0 < length example_hooks"
    by (simp add: example_hooks_def)
  have a2: "hist 0 = [] @ ?h0"
    by (simp add: hist_def)
  have a3: "\<forall>i<Suc 0. runHook ?os (example_hooks ! i) ''c1'' ''/run/c1'' (hist i) =
              (Return None, hist (Suc i))"
    using example_first_hook [of ?h0] by (simp add: hist_def prod_eq_iff)
  have a4: "runHook ?os (example_hooks ! Suc 0) ''c1'' ''/run/c1'' (hist (Suc 0)) =
              (Return (Some ?e), ?h2)"
    using example_second_hook [of ?h1] by (simp add: hist_def prod_eq_iff)
  note th = runHooks_fail_fast [of example_hooks "[]" "''pre-start''" ?os "''c1''" "''/run/c1''"]
  from th a1 a2 a3 a4
  have r: "runHooks ?os example_hooks ''c1'' ''/run/c1'' ''pre-start'' [] =
             (Return (Some ?e), ?h2 @ [LogError ''pre-start'' ?e, Finish ''hooks''])"
    by blast
  from th a1 a2 a3 a4
  have t: "runHooks ?os (take (Suc (Suc 0)) example_hooks) ''c1'' ''/run/c1'' ''pre-start'' [] =
             runHooks ?os example_hooks ''c1'' ''/run/c1'' ''pre-start'' []"
    by blast
  have l: "map cmd_Path (launches (snd (runHooks ?os example_hooks ''c1'' ''/run/c1''
             ''pre-start'' []))) = [''/usr/bin/net-hook'', ''/usr/bin/fail-hook'']"
    unfolding r using example_launches by (simp add: launches_append)
  have ok: "fst (runHooks ?os example_ok_hooks ''c1'' ''/run/c1'' ''pre-start'' []) = Return None
            \<and> map cmd_Path (launches (snd (runHooks ?os example_ok_hooks ''c1'' ''/run/c1''
                 ''pre-start'' []))) = [''/usr/bin/net-hook'', ''/usr/bin/last-hook'']"
    using runHooks_fail_fast [of example_ok_hooks "[]" "''pre-start''" ?os "''c1''" "''/run/c1''"]
    by (simp add: runHooks_def runHook_def example_defs)
  show ?thesis
    using r t l ok by simp
qed

text \<open>
  C5: on a list on which hook \<open>k\<close> is the first to fail (the hooks before it return
  \<open>nil\<close> one after the other, and \<open>runHook\<close> on hook \<open>k\<close> returns the error
  \<open>err\<close>), \<open>runHooks\<close> returns that very value \<open>err\<close>. Conversely, whenever
  \<open>runHooks\<close> returns an error \<open>e\<close>, there is such a first failing hook, and
  \<open>runHook\<close> on it returned \<open>e\<close>.
\<close>

theorem runHooks_error_verbatim:
  "(\<forall>k hist err.
       k < length hooks
       \<and> hist 0 = h @ [Trace ''hooks'', SetTag ''subsystem'' hookType]
       \<and> (\<forall>i<k. runHook os (hooks ! i) cid bundlePath (hist i) = (Return None, hist (Suc i)))
       \<and> fst (runHook os (hooks ! k) cid bundlePath (hist k)) = Return (Some err)
     \<longrightarrow> fst (runHooks os hooks cid bundlePath hookType h) = Return (Some err))
   \<and> (\<forall>e. fst (runHooks os hooks cid bundlePath hookType h) = Return (Some e)
     \<longrightarrow> (\<exists>k hist. k < length hooks
           \<and> hist 0 = h @ [Trace ''hooks'', SetTag ''subsystem'' hookType]
           \<and> (\<forall>i<k. runHook os (hooks ! i) cid bundlePath (hist i) = (Return None, hist (Suc i)))
           \<and> fst (runHook os (hooks ! k) cid bundlePath (hist k)) = Return (Some e)))"
proof (intro conjI allI impI)
  fix k hist err
  assume a: "k < length hooks
       \<and> hist 0 = h @ [Trace ''hooks'', SetTag ''subsystem'' hookType]
       \<and> (\<forall>i<k. runHook os (hooks ! i) cid bundlePath (hist i) = (Return None, hist (Suc i)))
       \<and> fst (runHook os (hooks ! k) cid bundlePath (hist k)) = Return (Some err)"
  then have "runHook os (hooks ! k) cid bundlePath (hist k) =
               (Return (Some err), snd (runHook os (hooks ! k) cid bundlePath (hist k)))"
    by (simp add: prod_eq_iff)
  with a have "hooks_loop os hooks cid bundlePath hookType (hist 0) =
                 (Return (Some err),
                  snd (runHook os (hooks ! k) cid bundlePath (hist k)) @ [LogError hookType err])"
    using hooks_loop_fail_at [of k hooks hist "hist 0" os cid bundlePath err
        "snd (runHook os (hooks ! k) cid bundlePath (hist k))" hookType]
    by blast
  with a show "fst (runHooks os hooks cid bundlePath hookType h) = Return (Some err)"
    by (simp add: runHooks_def)
next
  fix e
  assume r: "fst (runHooks os hooks cid bundlePath hookType h) = Return (Some e)"
  let ?h0 = "h @ [Trace ''hooks'', SetTag ''subsystem'' hookType]"
  obtain r1 hf where l: "hooks_loop os hooks cid bundlePath hookType ?h0 = (r1, hf)"
    by (cases "hooks_loop os hooks cid bundlePath hookType ?h0")
  have "r1 = Return (Some e)"
    using r l by (cases r1) (simp_all add: runHooks_def)
  with l show "\<exists>k hist. k < length hooks
           \<and> hist 0 = h @ [Trace ''hooks'', SetTag ''subsystem'' hookType]
           \<and> (\<forall>i<k. runHook os (hooks ! i) cid bundlePath (hist i) = (Return None, hist (Suc i)))
           \<and> fst (runHook os (hooks ! k) cid bundlePath (hist k)) = Return (Some e)"
    using hooks_loop_error_source by blast
qed

theorem runHooks_error_verbatim_witness:
  "fst (runHook (example_sys example_start None) (example_hooks ! 0) ''c1'' ''/run/c1''
          [Trace ''hooks'', SetTag ''subsystem'' ''pre-start'']) = Return None
   \<and> fst (runHook (example_sys example_start None) (example_hooks ! Suc 0) ''c1'' ''/run/c1''
            (snd (runHook (example_sys example_start None) (example_hooks ! 0) ''c1'' ''/run/c1''
                    [Trace ''hooks'', SetTag ''subsystem'' ''pre-start'']))) =
       Return (Some (Errorf ''exit status 1: stdout: Hook, stderr: timeout''))
   \<and> fst (runHooks (example_sys example_start None) example_hooks ''c1'' ''/run/c1''
            ''pre-start'' []) =
       Return (Some (Errorf ''exit status 1: stdout: Hook, stderr: timeout''))
   \<and> (\<exists>k hist. k < length example_hooks
         \<and> hist 0 = [] @ [Trace ''hooks'', SetTag ''subsystem'' ''pre-start'']
         \<and> (\<forall>i<k. runHook (example_sys example_start None) (example_hooks ! i) ''c1'' ''/run/c1''
                     (hist i) = (Return None, hist (Suc i)))
         \<and> fst (runHook (example_sys example_start None) (example_hooks ! k) ''c1'' ''/run/c1''
                   (hist k)) =
             Return (Some (Errorf ''exit status 1: stdout: Hook, stderr: timeout'')))"
proof -
  let ?os = "example_sys example_start None"
  let ?h0 = "[Trace ''hooks'', SetTag ''subsystem'' ''pre-start'']"
  let ?h1 = "snd (runHook ?os (example_hooks ! 0) ''c1'' ''/run/c1'' ?h0)"
  let ?e = "Errorf ''exit status 1: stdout: Hook, stderr: timeout''"
  define hist where "hist = (\<lambda>i::nat. if i = 0 then ?h0 else ?h1)"
  have a1: "Suc 0 < length example_hooks"
    by (simp add: example_hooks_def)
  have a2: "hist 0 = [] @ ?h0"
    by (simp add: hist_def)
  have a3: "\<forall>i<Suc 0. runHook ?os (example_hooks ! i) ''c1'' ''/run/c1'' (hist i) =
              (Return None, hist (Suc i))"
    using example_first_hook [of ?h0] by (simp add: hist_def prod_eq_iff)
  have a4: "fst (runHook ?os (example_hooks ! Suc 0) ''c1'' ''/run/c1'' (hist (Suc 0))) =
              Return (Some ?e)"
    using example_second_hook [of ?h1] by (simp add: hist_def)
  note th = runHooks_error_verbatim [of example_hooks "[]" "''pre-start''" ?os "''c1''" "''/run/c1''"]
  from th a1 a2 a3 a4
  have r: "fst (runHooks ?os example_hooks ''c1'' ''/run/c1'' ''pre-start'' []) = Return (Some ?e)"
    by blast
  with th have s: "\<exists>k hist. k < length example_hooks
         \<and> hist 0 = [] @ [Trace ''hooks'', SetTag ''subsystem'' ''pre-start'']
         \<and> (\<forall>i<k. runHook ?os (example_hooks ! i) ''c1'' ''/run/c1'' (hist i) =
                     (Return None, hist (Suc i)))
         \<and> fst (runHook ?os (example_hooks ! k) ''c1'' ''/run/c1'' (hist k)) = Return (Some ?e)"
    by blast
  show ?thesis
    using r s example_first_hook [of ?h0] example_second_hook [of ?h1] by blast
qed

subsection \<open>The entry points\<close>

text \<open>
  C8: when the container specification has no hooks section (\<open>spec.Hooks == nil\<close>),
  each of \<open>PreStartHooks\<close>, \<open>PostStartHooks\<close> and \<open>PostStopHooks\<close> returns
  \<open>nil\<close> and leaves the history as it was. \<open>runHooks\<close> was therefore not called:
  a call of \<open>runHooks\<close> always leaves its span in the history.
\<close>

theorem entry_points_no_hooks:
  assumes "spec_Hooks spec = None"
  shows "PreStartHooks os spec cid bundlePath h = (Return None, h)
       \<and> PostStartHooks os spec cid bundlePath h = (Return None, h)
       \<and> PostStopHooks os spec cid bundlePath h = (Return None, h)
       \<and> (\<forall>hooks hookType. snd (runHooks os hooks cid bundlePath hookType h) \<noteq> h)"
  using assms runHooks_leaves_trace
  by (simp add: PreStartHooks_def PostStartHooks_def PostStopHooks_def)

theorem entry_points_no_hooks_witness:
  "PreStartHooks (example_sys (\<lambda>c. Inr example_process) None) \<lparr>spec_Hooks = None\<rparr>
       ''c1'' ''/run/c1'' [] = (Return None, [])
   \<and> PostStartHooks (example_sys (\<lambda>c. Inr example_process) None) \<lparr>spec_Hooks = None\<rparr>
       ''c1'' ''/run/c1'' [] = (Return None, [])
   \<and> PostStopHooks (example_sys (\<lambda>c. Inr example_process) None) \<lparr>spec_Hooks = None\<rparr>
       ''c1'' ''/run/c1'' [] = (Return None, [])
   \<and> snd (runHooks (example_sys (\<lambda>c. Inr example_process) None) [] ''c1'' ''/run/c1''
             ''pre-start'' []) \<noteq> []"
proof -
  have n: "spec_Hooks \<lparr>spec_Hooks = None\<rparr> = None"
    by simp
  show ?thesis
    using entry_points_no_hooks [OF n, of "example_sys (\<lambda>c. Inr example_process) None"
        "''c1''" "''/run/c1''" "[]"]
    by blast
qed

end
